theory Spec2Isabelle
  imports Main
begin

section \<open>JavaScript values\<close>

text \<open>
  Request bodies, tool arguments, upstream payloads and the fields of stored documents are
  JSON values, plus \<open>undefined\<close> for a property that is not there. A number is held as
  the text \<open>String\<close> gives it (\<open>1e21\<close> is \<open>1e+21\<close>, \<open>-0\<close> is \<open>0\<close>): the program
  compares numbers, tests them for truth and prints them, and reads nothing else of them.
  A string is well-formed Unicode, held as its UTF-8 bytes. An object is the list of its
  own properties in insertion order.
\<close>

datatype jsval =
    JUndefined
  | JNull
  | JBool bool
  | JNum string
  | JStr string
  | JArr "jsval list"
  | JObj "(string \<times> jsval) list"

type_synonym obj = "(string \<times> jsval) list"

text \<open>\<open>!v\<close> is false exactly on the truthy values.\<close>

fun truthy :: "jsval \<Rightarrow> bool" where
  "truthy JUndefined = False"
| "truthy JNull = False"
| "truthy (JBool b) = b"
| "truthy (JNum n) = (n \<noteq> ''0'' \<and> n \<noteq> ''NaN'')"
| "truthy (JStr s) = (s \<noteq> [])"
| "truthy (JArr xs) = True"
| "truthy (JObj kvs) = True"

text \<open>Reading a property of a parsed JSON object: \<open>o.k\<close>, \<open>undefined\<close> when absent.\<close>

definition get_prop :: "obj \<Rightarrow> string \<Rightarrow> jsval" where
  "get_prop ob k = (case map_of ob k of None \<Rightarrow> JUndefined | Some v \<Rightarrow> v)"

text \<open>
  \<open>v.k\<close> on an arbitrary value: a TypeError (\<open>None\<close>) on \<open>null\<close> and
  \<open>undefined\<close>, the property on an object, \<open>undefined\<close> on the other values (none of
  the names read by this program is a built-in property of a string, number, boolean or array).
\<close>

fun member :: "jsval \<Rightarrow> string \<Rightarrow> jsval option" where
  "member JUndefined k = None"
| "member JNull k = None"
| "member (JObj kvs) k = Some (get_prop kvs k)"
| "member v k = Some JUndefined"

text \<open>Thrown values: the constructor is the error class, the string its \<open>message\<close>.\<close>

datatype js_error =
    Error string
  | TypeError string
  | SyntaxError string
  | MongoServerError string

fun message :: "js_error \<Rightarrow> string" where
  "message (Error m) = m"
| "message (TypeError m) = m"
| "message (SyntaxError m) = m"
| "message (MongoServerError m) = m"

text \<open>
  \<open>String(v)\<close>, as template literals, \<open>encodeURIComponent\<close> and \<open>URLSearchParams\<close>
  apply it. An object parsed from JSON prints as \<open>[object Object]\<close> unless it has a
  property \<open>toString\<close> of its own: that property is not a function, and neither it nor
  \<open>valueOf\<close> then yields a primitive, so the conversion throws. An array joins the
  conversions of its elements, \<open>null\<close> as the empty string.
\<close>

definition not_primitive :: js_error where
  "not_primitive = TypeError ''Cannot convert object to primitive value''"

fun js_String :: "jsval \<Rightarrow> js_error + string" and js_join :: "jsval list \<Rightarrow> js_error + string" where
  "js_String JUndefined = Inr ''undefined''"
| "js_String JNull = Inr ''null''"
| "js_String (JBool b) = Inr (if b then ''true'' else ''false'')"
| "js_String (JNum n) = Inr n"
| "js_String (JStr s) = Inr s"
| "js_String (JArr xs) = js_join xs"
| "js_String (JObj kvs) =
     (if ''toString'' \<in> set (map fst kvs) then Inl not_primitive else Inr ''[object Object]'')"
| "js_join [] = Inr []"
| "js_join [x] = (if x = JNull \<or> x = JUndefined then Inr [] else js_String x)"
| "js_join (x # y # ys) =
     (case (if x = JNull \<or> x = JUndefined then Inr [] else js_String x) of
        Inl e \<Rightarrow> Inl e
      | Inr a \<Rightarrow>
          (case js_join (y # ys) of
             Inl e \<Rightarrow> Inl e
           | Inr b \<Rightarrow> Inr (a @ '','' @ b)))"

text \<open>The decimal digits of an array's \<open>length\<close>.\<close>

fun show_nat :: "nat \<Rightarrow> string" where
  "show_nat n =
     (if n < 10 then [''0123456789'' ! n]
      else show_nat (n div 10) @ [''0123456789'' ! (n mod 10)])"

declare show_nat.simps [simp del]




section \<open>The agents collection (agent-database.js)\<close>

text \<open>
  \<open>agent_data\<close> is the object both facades hand to \<open>Agents.upsert\<close>; a stored document
  adds the two timestamps (\<open>None\<close>: the document has no such field). A field a stored
  document does not have reads as \<open>undefined\<close>. The database's own \<open>_id\<close> is left
  out. Timestamps are milliseconds since the epoch.
\<close>

type_synonym timestamp = nat

record agent_data =
  agentId :: jsval
  agentName :: jsval
  phoneNumber :: jsval
  agentPrompt :: jsval
  active :: jsval
  metadata :: jsval

record agent_doc = agent_data +
  createdAt :: "timestamp option"
  updatedAt :: "timestamp option"

text \<open>
  How a database server reads an operator document, that is a filter value whose first
  key starts with \<open>$\<close> (\<open>{$ne: null}\<close>, \<open>{$gt: ''''}\<close>): it rejects the command, or reads
  a condition on the field's value together with the value an upsert gives the field when
  it inserts. The query language is the server's, not this program's, so it is a parameter
  of the server.
\<close>

type_synonym operators = "obj \<Rightarrow> js_error + ((jsval \<Rightarrow> bool) \<times> jsval)"

text \<open>
  The database server: the documents of collection \<open>agents\<close> in natural order, which of
  the three indexes of \<open>connectDB\<close> exist, two counters of what the server was asked to
  do (connections opened, \<open>createIndex\<close> commands received), and its reading of operator
  documents.
\<close>

record mongo =
  docs :: "agent_doc list"
  uniqueAgentId :: bool
  uniquePhoneNumber :: bool
  activeIndex :: bool
  connects :: nat
  indexCommands :: nat
  operators :: operators

text \<open>
  The module's two variables \<open>client\<close> and \<open>db\<close> (\<open>None\<close> is \<open>null\<close>; the number
  identifies the \<open>MongoClient\<close> object), the number of clients constructed so far, and
  the server the configured URI points to.
\<close>

record state =
  client :: "nat option"
  db :: "nat option"
  made :: nat
  server :: mongo

text \<open>The driver writes \<open>undefined\<close> as \<open>null\<close>, in filters and in updates.\<close>

fun bson :: "jsval \<Rightarrow> jsval" where
  "bson JUndefined = JNull"
| "bson v = v"

text \<open>
  The keys under which an index holds a field's value: each element of an array (an empty
  array is indexed as \<open>undefined\<close>), \<open>null\<close> for a field that is missing, the value
  itself otherwise. A unique index allows no key in two documents.
\<close>

fun index_keys :: "jsval \<Rightarrow> jsval list" where
  "index_keys (JArr []) = [JUndefined]"
| "index_keys (JArr (x # xs)) = x # xs"
| "index_keys JUndefined = [JNull]"
| "index_keys v = [v]"

definition unique_keys :: "jsval list \<Rightarrow> bool" where
  "unique_keys vs = distinct (concat (map (\<lambda>v. remdups (index_keys v)) vs))"

text \<open>Writing value \<open>v\<close> next to documents that hold \<open>others\<close> would repeat a key.\<close>

definition key_conflict :: "jsval \<Rightarrow> jsval list \<Rightarrow> bool" where
  "key_conflict v others =
     (\<exists>k \<in> set (index_keys v). k \<in> set (concat (map index_keys others)))"

datatype index = AgentIdIndex | PhoneNumberIndex | ActiveIndex

text \<open>
  \<open>createIndex\<close>: a no-op on an index that exists; building a unique index fails when two
  documents share a key. The command is counted either way.
\<close>

definition duplicate_key :: "string \<Rightarrow> js_error" where
  "duplicate_key ix = MongoServerError (''E11000 duplicate key error index: '' @ ix)"

definition createIndex :: "index \<Rightarrow> mongo \<Rightarrow> js_error option \<times> mongo" where
  "createIndex ix m =
     (let m' = m\<lparr>indexCommands := indexCommands m + 1\<rparr> in
      case ix of
        AgentIdIndex \<Rightarrow>
          if uniqueAgentId m then (None, m')
          else if unique_keys (map agentId (docs m)) then (None, m'\<lparr>uniqueAgentId := True\<rparr>)
          else (Some (duplicate_key ''agentId_1''), m')
      | PhoneNumberIndex \<Rightarrow>
          if uniquePhoneNumber m then (None, m')
          else if unique_keys (map phoneNumber (docs m))
            then (None, m'\<lparr>uniquePhoneNumber := True\<rparr>)
          else (Some (duplicate_key ''phoneNumber_1''), m')
      | ActiveIndex \<Rightarrow> (None, m'\<lparr>activeIndex := True\<rparr>))"

text \<open>Whether \<open>client.connect()\<close> gets through, and the driver's message when it does not.\<close>

datatype link = Up | Down string

text \<open>
  \<open>connectDB\<close>, lines 12-34. \<open>create_indexes\<close> is lines 24-26, each \<open>await\<close>
  throwing past the ones after it. The assignments to \<open>client\<close> and \<open>db\<close> happen where
  the source makes them: \<open>client\<close> before \<open>connect()\<close>, \<open>db\<close> before the three
  \<open>createIndex\<close> calls. The \<open>catch\<close> logs and rethrows, so a failure leaves the
  variables as they were at the throw.
\<close>

definition create_indexes :: "mongo \<Rightarrow> js_error option \<times> mongo" where
  "create_indexes m0 =
     (case createIndex AgentIdIndex m0 of
        (Some e, m1) \<Rightarrow> (Some e, m1)
      | (None, m1) \<Rightarrow>
          (case createIndex PhoneNumberIndex m1 of
             (Some e, m2) \<Rightarrow> (Some e, m2)
           | (None, m2) \<Rightarrow> createIndex ActiveIndex m2))"

definition connectDB :: "link \<Rightarrow> state \<Rightarrow> (js_error + nat) \<times> state" where
  "connectDB l s =
     (case db s of
        Some h \<Rightarrow> (Inr h, s)
      | None \<Rightarrow>
          (let c = made s;
               s1 = s\<lparr>client := Some c, made := c + 1\<rparr>
           in (case l of
                 Down msg \<Rightarrow> (Inl (Error msg), s1)
               | Up \<Rightarrow>
                   (let m0 = (server s1)\<lparr>connects := connects (server s1) + 1\<rparr>;
                        s2 = s1\<lparr>db := Some c\<rparr>
                    in (case create_indexes m0 of
                          (Some e, m) \<Rightarrow> (Inl e, s2\<lparr>server := m\<rparr>)
                        | (None, m) \<Rightarrow> (Inr c, s2\<lparr>server := m\<rparr>))))))"

definition getDB :: "state \<Rightarrow> js_error + nat" where
  "getDB s =
     (case db s of
        None \<Rightarrow> Inl (Error ''Database not initialized. Call connectDB() first.'')
      | Some h \<Rightarrow> Inr h)"

definition closeDB :: "state \<Rightarrow> state" where
  "closeDB s = (case client s of None \<Rightarrow> s | Some c \<Rightarrow> s\<lparr>client := None, db := None\<rparr>)"

subsection \<open>Filters\<close>

text \<open>
  A filter \<open>{k: q}\<close> whose \<open>q\<close> is not an operator document selects the documents whose
  field \<open>k\<close> equals \<open>q\<close> or is an array with \<open>q\<close> among its elements; a field that is
  missing counts as \<open>null\<close>.
\<close>

definition eq_match :: "jsval \<Rightarrow> jsval \<Rightarrow> bool" where
  "eq_match q v = (bson v = q \<or> (case v of JArr xs \<Rightarrow> q \<in> set xs | _ \<Rightarrow> False))"

fun operator_document :: "obj \<Rightarrow> bool" where
  "operator_document [] = False"
| "operator_document ((k, v) # kvs) = (take 1 k = ''$'')"

text \<open>
  What the server makes of the filter value \<open>q\<close>: a rejection, or the condition on the
  field together with the value an upsert seeds the field with.
\<close>

definition read_filter :: "mongo \<Rightarrow> jsval \<Rightarrow> js_error + ((jsval \<Rightarrow> bool) \<times> jsval)" where
  "read_filter m q =
     (case bson q of
        JObj kvs \<Rightarrow>
          if operator_document kvs then operators m kvs
          else Inr (eq_match (JObj kvs), JObj kvs)
      | b \<Rightarrow> Inr (eq_match b, b))"

subsection \<open>Collection commands\<close>

text \<open>The first document that satisfies the filter is the one found, updated or deleted.\<close>

fun update_first :: "('a \<Rightarrow> bool) \<Rightarrow> ('a \<Rightarrow> 'a) \<Rightarrow> 'a list \<Rightarrow> 'a list" where
  "update_first P f [] = []"
| "update_first P f (x # xs) = (if P x then f x # xs else x # update_first P f xs)"

fun delete_first :: "('a \<Rightarrow> bool) \<Rightarrow> 'a list \<Rightarrow> 'a list" where
  "delete_first P [] = []"
| "delete_first P (x # xs) = (if P x then xs else x # delete_first P xs)"

record update_result =
  matchedCount :: nat
  modifiedCount :: nat
  upsertedCount :: nat

text \<open>The \<open>$set\<close> of \<open>upsert\<close>: every field of \<open>data\<close> and \<open>updatedAt\<close>.\<close>

definition set_fields :: "agent_data \<Rightarrow> timestamp \<Rightarrow> agent_doc \<Rightarrow> agent_doc" where
  "set_fields a tu d =
     d\<lparr>agentName := bson (agentName a), phoneNumber := bson (phoneNumber a),
       agentPrompt := bson (agentPrompt a), active := bson (active a),
       metadata := bson (metadata a), updatedAt := Some tu\<rparr>"

text \<open>
  The document an upsert inserts: the \<open>agentId\<close> the filter seeds, \<open>$set\<close> and
  \<open>$setOnInsert\<close>.
\<close>

definition new_doc :: "jsval \<Rightarrow> agent_data \<Rightarrow> timestamp \<Rightarrow> timestamp \<Rightarrow> agent_doc" where
  "new_doc seed a tu tc =
     \<lparr>agentId = seed, agentName = bson (agentName a),
      phoneNumber = bson (phoneNumber a), agentPrompt = bson (agentPrompt a),
      active = bson (active a), metadata = bson (metadata a),
      createdAt = Some tc, updatedAt = Some tu\<rparr>"

text \<open>
  What the unique index on \<open>phoneNumber\<close> refuses: the phone number being written
  repeats a key of a document other than the one the filter selects.
\<close>

definition phone_conflict :: "agent_data \<Rightarrow> mongo \<Rightarrow> bool" where
  "phone_conflict a m =
     (case read_filter m (agentId a) of
        Inl e \<Rightarrow> False
      | Inr (hit, seed) \<Rightarrow>
          uniquePhoneNumber m \<and>
          key_conflict (bson (phoneNumber a))
            (map phoneNumber (delete_first (\<lambda>d. hit (agentId d)) (docs m))))"

text \<open>
  \<open>collection.updateOne({agentId}, {$set, $setOnInsert}, {upsert: true})\<close>. A refused
  command writes nothing. An update leaves \<open>agentId\<close> alone; an insert writes the seeded
  \<open>agentId\<close>, which the unique index on \<open>agentId\<close> refuses when it repeats a key.
\<close>

definition updateOne_upsert ::
  "agent_data \<Rightarrow> timestamp \<Rightarrow> timestamp \<Rightarrow> mongo \<Rightarrow> js_error + (update_result \<times> mongo)" where
  "updateOne_upsert a tu tc m =
     (case read_filter m (agentId a) of
        Inl e \<Rightarrow> Inl e
      | Inr (hit, seed) \<Rightarrow>
          if phone_conflict a m then Inl (duplicate_key ''phoneNumber_1'')
          else (case find (\<lambda>d. hit (agentId d)) (docs m) of
                  Some d \<Rightarrow>
                    Inr (\<lparr>matchedCount = 1,
                          modifiedCount = (if set_fields a tu d = d then 0 else 1),
                          upsertedCount = 0\<rparr>,
                         m\<lparr>docs := update_first (\<lambda>d. hit (agentId d)) (set_fields a tu) (docs m)\<rparr>)
                | None \<Rightarrow>
                    if uniqueAgentId m \<and> key_conflict seed (map agentId (docs m))
                    then Inl (duplicate_key ''agentId_1'')
                    else Inr (\<lparr>matchedCount = 0, modifiedCount = 0, upsertedCount = 1\<rparr>,
                              m\<lparr>docs := docs m @ [new_doc seed a tu tc]\<rparr>)))"


text \<open>\<open>collection.deleteOne({agentId})\<close>, returning \<open>deletedCount\<close>.\<close>

definition deleteOne :: "jsval \<Rightarrow> mongo \<Rightarrow> js_error + (nat \<times> mongo)" where
  "deleteOne aid m =
     (case read_filter m aid of
        Inl e \<Rightarrow> Inl e
      | Inr (hit, seed) \<Rightarrow>
          (case find (\<lambda>d. hit (agentId d)) (docs m) of
             None \<Rightarrow> Inr (0, m)
           | Some d \<Rightarrow> Inr (1, m\<lparr>docs := delete_first (\<lambda>d. hit (agentId d)) (docs m)\<rparr>)))"

subsection \<open>\<open>Agents\<close>\<close>

text \<open>
  Each operation starts with \<open>getDB()\<close>, which throws before the collection is reached.
  \<open>upsert\<close> evaluates \<open>new Date()\<close> twice: \<open>tu\<close> for \<open>updatedAt\<close>, \<open>tc\<close> for
  \<open>createdAt\<close>.
\<close>

definition Agents_upsert ::
  "agent_data \<Rightarrow> timestamp \<Rightarrow> timestamp \<Rightarrow> state \<Rightarrow> (js_error + update_result) \<times> state" where
  "Agents_upsert a tu tc s =
     (case getDB s of
        Inl e \<Rightarrow> (Inl e, s)
      | Inr h \<Rightarrow>
          (case updateOne_upsert a tu tc (server s) of
             Inl e \<Rightarrow> (Inl e, s)
           | Inr (r, m) \<Rightarrow> (Inr r, s\<lparr>server := m\<rparr>)))"


text \<open>\<open>find({active: true})\<close>: the filter value is the boolean, never an operator.\<close>

definition Agents_getAllActive :: "state \<Rightarrow> js_error + agent_doc list" where
  "Agents_getAllActive s =
     (case getDB s of
        Inl e \<Rightarrow> Inl e
      | Inr h \<Rightarrow> Inr (filter (\<lambda>d. eq_match (JBool True) (active d)) (docs (server s))))"

definition Agents_delete :: "jsval \<Rightarrow> state \<Rightarrow> (js_error + nat) \<times> state" where
  "Agents_delete aid s =
     (case getDB s of
        Inl e \<Rightarrow> (Inl e, s)
      | Inr h \<Rightarrow>
          (case deleteOne aid (server s) of
             Inl e \<Rightarrow> (Inl e, s)
           | Inr (n, m) \<Rightarrow> (Inr n, s\<lparr>server := m\<rparr>)))"

section \<open>The upstream backend\<close>

text \<open>
  One outbound \<open>fetch\<close>: the method, the path below the configured base URL as the list
  of its segments, the query parameters as name and value before form encoding, and the
  value handed to \<open>JSON.stringify\<close> as the body.
\<close>

datatype http_method = GET | POST

record up_request =
  up_method :: http_method
  up_path :: "string list"
  up_query :: "(string \<times> string) list"
  up_body :: "jsval option"


text \<open>
  What \<open>fetch\<close> gives back: a rejection with its message, or a response with its status
  and its body, which \<open>response.json()\<close> either parses or rejects with a SyntaxError.
\<close>

datatype fetch_result =
    Rejected string
  | Response nat "string + jsval"

type_synonym upstream = "up_request \<Rightarrow> fetch_result"

text \<open>\<open>await fetch(...)\<close> followed by \<open>await response.json()\<close>.\<close>

fun read_json :: "fetch_result \<Rightarrow> js_error + (nat \<times> jsval)" where
  "read_json (Rejected msg) = Inl (TypeError msg)"
| "read_json (Response st (Inl msg)) = Inl (SyntaxError msg)"
| "read_json (Response st (Inr data)) = Inr (st, data)"

section \<open>The HTTP facade\<close>

record http_response =
  res_status :: nat
  res_body :: jsval

text \<open>
  \<open>JSON.stringify\<close> leaves out the properties of an object literal whose value is
  \<open>undefined\<close>; \<open>res.json\<close> answers with status 200 unless \<open>res.status\<close> was called.
\<close>

definition stringify :: "obj \<Rightarrow> jsval" where
  "stringify kvs = JObj (filter (\<lambda>kv. snd kv \<noteq> JUndefined) kvs)"

definition failure :: "nat \<Rightarrow> string \<Rightarrow> http_response" where
  "failure st msg =
     \<lparr>res_status = st, res_body = stringify [(''success'', JBool False), (''error'', JStr msg)]\<rparr>"

text \<open>The TypeError thrown by \<open>v.k\<close> on \<open>null\<close> or \<open>undefined\<close>.\<close>

definition cannot_read :: "string \<Rightarrow> string \<Rightarrow> js_error" where
  "cannot_read v k =
     TypeError (''Cannot read properties of '' @ v @ '' (reading '' @
                [CHR 0x27] @ k @ [CHR 0x27] @ '')'')"

text \<open>A property of a value already known not to be \<open>null\<close> or \<open>undefined\<close>.\<close>

definition field :: "jsval \<Rightarrow> string \<Rightarrow> jsval" where
  "field v k = (case member v k of None \<Rightarrow> JUndefined | Some x \<Rightarrow> x)"

subsection \<open>\<open>POST /api/get-agent-prompt\<close>\<close>




subsection \<open>Availability, doctors, booking, cancellation\<close>












subsection \<open>Agent management\<close>

text \<open>The object both facades build for \<open>Agents.upsert\<close> from the request's fields.\<close>

definition upsert_argument :: "obj \<Rightarrow> agent_data" where
  "upsert_argument ob =
     \<lparr>agentId = get_prop ob ''agentId'',
      agentName = get_prop ob ''agentName'',
      phoneNumber = get_prop ob ''phoneNumber'',
      agentPrompt = get_prop ob ''agentPrompt'',
      active = (if get_prop ob ''active'' \<noteq> JUndefined then get_prop ob ''active'' else JBool True),
      metadata = (if truthy (get_prop ob ''metadata'') then get_prop ob ''metadata'' else JObj [])\<rparr>"

text \<open>\<open>POST /api/create-agent\<close>, lines 292-321.\<close>

definition create_agent_route ::
  "obj \<Rightarrow> timestamp \<Rightarrow> timestamp \<Rightarrow> state \<Rightarrow> http_response \<times> state" where
  "create_agent_route body tu tc s =
     (if \<not> truthy (get_prop body ''agentId'') \<or> \<not> truthy (get_prop body ''agentName'') \<or>
         \<not> truthy (get_prop body ''phoneNumber'') \<or> \<not> truthy (get_prop body ''agentPrompt'')
      then (failure 400 ''agentId, agentName, phoneNumber, and agentPrompt are required'', s)
      else case Agents_upsert (upsert_argument body) tu tc s of
             (Inl e, s') \<Rightarrow> (failure 500 (message e), s')
           | (Inr result, s') \<Rightarrow>
               (\<lparr>res_status = 200,
                 res_body = stringify
                   [(''success'', JBool True),
                    (''message'', JStr (if upsertedCount result > 0 then ''Created'' else ''Updated'')),
                    (''agentId'', get_prop body ''agentId'')]\<rparr>,
                s'))"

text \<open>\<open>GET /api/agents\<close>, lines 326-341.\<close>

definition agent_summary :: "agent_doc \<Rightarrow> jsval" where
  "agent_summary a =
     stringify [(''agentId'', agentId a), (''agentName'', agentName a),
                (''phoneNumber'', phoneNumber a)]"

definition agents_route :: "state \<Rightarrow> http_response" where
  "agents_route s =
     (case Agents_getAllActive s of
        Inl e \<Rightarrow> failure 500 (message e)
      | Inr agents \<Rightarrow>
          \<lparr>res_status = 200,
           res_body = stringify
             [(''success'', JBool True),
              (''count'', JNum (show_nat (length agents))),
              (''agents'', JArr (map agent_summary agents))]\<rparr>)"

section \<open>The tool facade\<close>

text \<open>
  A tool call answers with one text, the JSON of a value: \<open>Text v\<close>. \<open>AgentText a\<close> is the
  text of \<open>{success: true, agent: a, prompt: a.agentPrompt}\<close>, which holds a whole stored
  document, and \<open>Caught e\<close> the text the dispatcher's outer \<open>catch\<close> builds from a thrown
  error, \<open>{success: false, error: e.message, stack: e.stack}\<close>. \<open>args\<close> is the argument
  object of the request. A message built with a template literal throws when the value
  printed has no string form, after the store was written.
\<close>

datatype tool_result =
    Text jsval
  | AgentText agent_doc
  | Caught js_error

text \<open>\<open>case 'create_agent'\<close>, lines 287-310.\<close>

definition create_agent ::
  "obj \<Rightarrow> timestamp \<Rightarrow> timestamp \<Rightarrow> state \<Rightarrow> tool_result \<times> state" where
  "create_agent args tu tc s =
     (case Agents_upsert (upsert_argument args) tu tc s of
        (Inl e, s') \<Rightarrow> (Caught e, s')
      | (Inr result, s') \<Rightarrow>
          (case js_String (get_prop args ''agentId'') of
             Inl e \<Rightarrow> (Caught e, s')
           | Inr text \<Rightarrow>
               (Text (stringify
                  [(''success'', JBool True),
                   (''message'',
                    JStr (if upsertedCount result > 0
                          then ''Agent '' @ text @ '' created successfully''
                          else ''Agent '' @ text @ '' updated successfully'')),
                   (''agentId'', get_prop args ''agentId''),
                   (''phoneNumber'', get_prop args ''phoneNumber'')]),
                s')))"


text \<open>\<open>case 'delete_agent'\<close>, lines 352-366.\<close>

definition delete_agent :: "obj \<Rightarrow> state \<Rightarrow> tool_result \<times> state" where
  "delete_agent args s =
     (case Agents_delete (get_prop args ''agentId'') s of
        (Inl e, s') \<Rightarrow> (Caught e, s')
      | (Inr deletedCount, s') \<Rightarrow>
          (case js_String (get_prop args ''agentId'') of
             Inl e \<Rightarrow> (Caught e, s')
           | Inr text \<Rightarrow>
               (Text (stringify
                  [(''success'', JBool (deletedCount > 0)),
                   (''message'',
                    JStr (if deletedCount > 0
                          then ''Agent '' @ text @ '' deleted''
                          else ''Agent '' @ text @ '' not found''))]),
                s')))"

subsection \<open>\<open>find_patient_appointments\<close>, lines 544-589\<close>

text \<open>\<open>replace(/\D/g, '')\<close> keeps the ASCII digits.\<close>

definition strip_non_digits :: "string \<Rightarrow> string" where
  "strip_non_digits p = filter (\<lambda>c. c \<in> set ''0123456789'') p"

text \<open>
  \<open>args.patientPhone.replace\<close>: a TypeError unless the argument is a string (reading the
  property throws on \<open>null\<close> and \<open>undefined\<close>, calling it on the other values).
\<close>

fun clean_phone :: "jsval \<Rightarrow> js_error + string" where
  "clean_phone (JStr p) = Inr (strip_non_digits p)"
| "clean_phone JUndefined = Inl (cannot_read ''undefined'' ''replace'')"
| "clean_phone JNull = Inl (cannot_read ''null'' ''replace'')"
| "clean_phone v = Inl (TypeError ''args.patientPhone.replace is not a function'')"

text \<open>
  \<open>appointments.filter(apt => ['scheduled', 'confirmed'].includes(apt.status))\<close>: the
  callback throws on an element that is \<open>null\<close>.
\<close>

fun filter_included :: "jsval list \<Rightarrow> js_error + jsval list" where
  "filter_included [] = Inr []"
| "filter_included (apt # rest) =
     (case member apt ''status'' of
        None \<Rightarrow> Inl (cannot_read ''null'' ''status'')
      | Some st \<Rightarrow>
          (case filter_included rest of
             Inl e \<Rightarrow> Inl e
           | Inr kept \<Rightarrow>
               Inr (if st \<in> set [JStr ''scheduled'', JStr ''confirmed''] then apt # kept
                    else kept)))"

text \<open>The object built for one appointment; \<open>apt.metadata?.doctor_name\<close> is
  \<open>undefined\<close> when \<open>apt.metadata\<close> is \<open>null\<close> or missing.\<close>

definition appointment_summary :: "jsval \<Rightarrow> jsval" where
  "appointment_summary apt =
     stringify
       [(''id'', field apt ''_id''),
        (''date'', field apt ''date''),
        (''time'', field apt ''time''),
        (''doctorName'', field (field apt ''metadata'') ''doctor_name''),
        (''status'', field apt ''status''),
        (''purpose'', field apt ''purpose'')]"

fun summaries :: "jsval list \<Rightarrow> js_error + jsval list" where
  "summaries [] = Inr []"
| "summaries (apt # rest) =
     (case member apt ''_id'' of
        None \<Rightarrow> Inl (cannot_read ''null'' ''_id'')
      | Some i \<Rightarrow>
          (case summaries rest of
             Inl e \<Rightarrow> Inl e
           | Inr out \<Rightarrow> Inr (appointment_summary apt # out)))"

text \<open>
  Lines 553-575, from the parsed upstream body to the payload: \<open>data.appointments || []\<close>,
  the filter unless \<open>includeCompleted\<close> is truthy, then \<open>length\<close> and \<open>map\<close>. A value
  that is truthy and not an array has no \<open>filter\<close> and no \<open>map\<close>.
\<close>

definition appointments_payload :: "jsval \<Rightarrow> jsval \<Rightarrow> jsval \<Rightarrow> js_error + jsval" where
  "appointments_payload patientPhone includeCompleted data =
     (case member data ''appointments'' of
        None \<Rightarrow> Inl (cannot_read ''null'' ''appointments'')
      | Some a \<Rightarrow>
          (case (if truthy a then a else JArr []) of
             JArr apts \<Rightarrow>
               (case (if \<not> truthy includeCompleted then filter_included apts else Inr apts) of
                  Inl e \<Rightarrow> Inl e
                | Inr appointments \<Rightarrow>
                    (case summaries appointments of
                       Inl e \<Rightarrow> Inl e
                     | Inr out \<Rightarrow>
                         Inr (stringify
                                [(''success'', JBool True),
                                 (''patientPhone'', patientPhone),
                                 (''count'', JNum (show_nat (length appointments))),
                                 (''appointments'', JArr out)])))
           | v \<Rightarrow>
               Inl (TypeError (if \<not> truthy includeCompleted
                               then ''appointments.filter is not a function''
                               else ''appointments.map is not a function''))))"

text \<open>The inner \<open>catch\<close>, lines 578-588.\<close>

definition appointments_failed :: "js_error \<Rightarrow> tool_result" where
  "appointments_failed e =
     Text (stringify
       [(''success'', JBool False),
        (''error'', JStr (''Failed to find appointments: '' @ message e))])"

definition find_patient_appointments :: "upstream \<Rightarrow> obj \<Rightarrow> tool_result \<times> up_request list" where
  "find_patient_appointments net args =
     (case clean_phone (get_prop args ''patientPhone'') of
        Inl e \<Rightarrow> (appointments_failed e, [])
      | Inr cleanPhone \<Rightarrow>
          (let rq = \<lparr>up_method = GET, up_path = [''api'', ''appointments''],
                     up_query = [(''phone'', cleanPhone)], up_body = None\<rparr>
           in (case read_json (net rq) of
                 Inl e \<Rightarrow> (appointments_failed e, [rq])
               | Inr (st, data) \<Rightarrow>
                   (case appointments_payload (get_prop args ''patientPhone'')
                           (get_prop args ''includeCompleted'') data of
                      Inl e \<Rightarrow> (appointments_failed e, [rq])
                    | Inr payload \<Rightarrow> (Text payload, [rq])))))"

section \<open>What the claims speak of\<close>


text \<open>
  A stored field holds the string \<open>x\<close>: it is that string, or an array with that string
  among its elements.
\<close>

definition holds_string :: "jsval \<Rightarrow> string \<Rightarrow> bool" where
  "holds_string v x = (v = JStr x \<or> (case v of JArr xs \<Rightarrow> JStr x \<in> set xs | _ \<Rightarrow> False))"

text \<open>A stored \<open>active\<close> is \<open>true\<close>, or an array with \<open>true\<close> among its elements.\<close>

definition holds_true :: "jsval \<Rightarrow> bool" where
  "holds_true v = (v = JBool True \<or> (case v of JArr xs \<Rightarrow> JBool True \<in> set xs | _ \<Rightarrow> False))"





subsection \<open>Example states\<close>

text \<open>A server that knows the operator \<open>$ne\<close> and no other.\<close>

definition knows_ne :: operators where
  "knows_ne kvs =
     (case kvs of
        [(k, x)] \<Rightarrow>
          if k = ''$ne'' then Inr (\<lambda>v. \<not> eq_match (bson x) v, JNull)
          else Inl (MongoServerError (''unknown operator: '' @ k))
      | _ \<Rightarrow> Inl (MongoServerError ''unknown operator''))"

text \<open>
  A fresh process in front of an empty database; the same after \<open>connectDB\<close>; then with
  one agent, and with a second, inactive one.
\<close>

definition initial :: state where
  "initial =
     \<lparr>client = None, db = None, made = 0,
      server = \<lparr>docs = [], uniqueAgentId = False, uniquePhoneNumber = False,
                activeIndex = False, connects = 0, indexCommands = 0,
                operators = knows_ne\<rparr>\<rparr>"

definition connected :: state where
  "connected = snd (connectDB Up initial)"

definition front_desk :: agent_data where
  "front_desk =
     \<lparr>agentId = JStr ''clinic-1'', agentName = JStr ''Front Desk'',
      phoneNumber = JStr ''+12025551234'', agentPrompt = JStr ''You answer for the clinic.'',
      active = JBool True, metadata = JObj []\<rparr>"

definition night_line :: agent_data where
  "night_line =
     \<lparr>agentId = JStr ''clinic-2'', agentName = JStr ''Night Line'',
      phoneNumber = JStr ''+12025550000'', agentPrompt = JStr ''You take messages.'',
      active = JBool False, metadata = JObj []\<rparr>"

definition one_agent :: state where
  "one_agent = snd (Agents_upsert front_desk 1000 1001 connected)"

definition two_agents :: state where
  "two_agents = snd (Agents_upsert night_line 1500 1501 one_agent)"

definition front_desk_doc :: agent_doc where
  "front_desk_doc =
     \<lparr>agentId = JStr ''clinic-1'', agentName = JStr ''Front Desk'',
      phoneNumber = JStr ''+12025551234'', agentPrompt = JStr ''You answer for the clinic.'',
      active = JBool True, metadata = JObj [], createdAt = Some 1001, updatedAt = Some 1000\<rparr>"

definition night_line_doc :: agent_doc where
  "night_line_doc =
     \<lparr>agentId = JStr ''clinic-2'', agentName = JStr ''Night Line'',
      phoneNumber = JStr ''+12025550000'', agentPrompt = JStr ''You take messages.'',
      active = JBool False, metadata = JObj [], createdAt = Some 1501, updatedAt = Some 1500\<rparr>"

text \<open>
  A database filled before the bridge first ran, where two documents carry the same phone
  number and no index exists yet.
\<close>

definition legacy :: state where
  "legacy =
     initial\<lparr>server := (server initial)\<lparr>docs :=
       [front_desk_doc, night_line_doc\<lparr>phoneNumber := JStr ''+12025551234''\<rparr>]\<rparr>\<rparr>"



text \<open>The front desk with another prompt and some metadata, in a store of two agents.\<close>

definition reworded :: agent_data where
  "reworded =
     front_desk\<lparr>agentPrompt := JStr ''Greet the caller first.'',
                metadata := JObj [(''tier'', JStr ''gold'')]\<rparr>"

definition reworded_store :: state where
  "reworded_store = snd (Agents_upsert reworded 3000 3001 two_agents)"

text \<open>
  The store after the \<open>create_agent\<close> tool was given \<open>active: [true]\<close> for a pager line,
  and the document it left.
\<close>

definition pager_args :: obj where
  "pager_args =
     [(''agentId'', JStr ''clinic-4''), (''agentName'', JStr ''Pager''),
      (''phoneNumber'', JStr ''+12025554444''), (''agentPrompt'', JStr ''You page the doctor.''),
      (''active'', JArr [JBool True])]"

definition pager_store :: state where
  "pager_store = snd (create_agent pager_args 1700 1701 one_agent)"

definition pager_doc :: agent_doc where
  "pager_doc =
     \<lparr>agentId = JStr ''clinic-4'', agentName = JStr ''Pager'',
      phoneNumber = JStr ''+12025554444'', agentPrompt = JStr ''You page the doctor.'',
      active = JArr [JBool True], metadata = JObj [], createdAt = Some 1701,
      updatedAt = Some 1700\<rparr>"

text \<open>An object without a string form.\<close>

definition unprintable :: jsval where
  "unprintable = JObj [(''toString'', JNum ''1'')]"

text \<open>
  An upstream that cannot be reached, one that answers every request with 503 and a JSON
  body, one that answers every request with 201 and a JSON body, and one that finds a
  prompt whose \<open>hospitalName\<close> has no string form.
\<close>

definition unreachable :: upstream where
  "unreachable rq = Rejected ''fetch failed''"





text \<open>An upstream whose appointment list holds one scheduled, one completed and one
  confirmed appointment.\<close>

definition calendar :: upstream where
  "calendar rq =
     Response 200 (Inr (JObj
       [(''appointments'',
         JArr [JObj [(''_id'', JStr ''a1''), (''date'', JStr ''2025-01-15''),
                     (''time'', JStr ''14:00''), (''status'', JStr ''scheduled''),
                     (''purpose'', JStr ''Checkup''),
                     (''metadata'', JObj [(''doctor_name'', JStr ''Dr. Smith'')])],
               JObj [(''_id'', JStr ''a2''), (''date'', JStr ''2024-12-01''),
                     (''time'', JStr ''09:00''), (''status'', JStr ''completed''),
                     (''purpose'', JStr ''Follow-up'')],
               JObj [(''_id'', JStr ''a3''), (''date'', JStr ''2025-02-03''),
                     (''time'', JStr ''10:30''), (''status'', JStr ''confirmed''),
                     (''purpose'', JStr ''X-ray'')]])]))"

section \<open>Example states, evaluated\<close>

lemma connected_eq:
  "connected =
     \<lparr>client = Some 0, db = Some 0, made = 1,
      server = \<lparr>docs = [], uniqueAgentId = True, uniquePhoneNumber = True,
                activeIndex = True, connects = 1, indexCommands = 3,
                operators = knows_ne\<rparr>\<rparr>"
  by (simp add: connected_def initial_def connectDB_def create_indexes_def createIndex_def
      unique_keys_def)

lemma read_filter_string: "read_filter m (JStr x) = Inr (eq_match (JStr x), JStr x)"
  by (simp add: read_filter_def)

lemma one_agent_eq:
  "one_agent = connected\<lparr>server := (server connected)\<lparr>docs := [front_desk_doc]\<rparr>\<rparr>"
  by (simp add: one_agent_def connected_eq Agents_upsert_def getDB_def updateOne_upsert_def
      phone_conflict_def read_filter_string key_conflict_def front_desk_def front_desk_doc_def
      new_doc_def)

lemma two_agents_eq:
  "two_agents = connected\<lparr>server := (server connected)\<lparr>docs := [front_desk_doc, night_line_doc]\<rparr>\<rparr>"
  by (simp add: two_agents_def one_agent_eq connected_eq Agents_upsert_def getDB_def
      updateOne_upsert_def phone_conflict_def read_filter_string key_conflict_def eq_match_def
      night_line_def front_desk_doc_def night_line_doc_def new_doc_def)

lemma pager_store_eq:
  "pager_store = connected\<lparr>server := (server connected)\<lparr>docs := [front_desk_doc, pager_doc]\<rparr>\<rparr>"
  by (simp add: pager_store_def pager_args_def create_agent_def upsert_argument_def get_prop_def
      one_agent_eq connected_eq Agents_upsert_def getDB_def updateOne_upsert_def
      phone_conflict_def read_filter_string key_conflict_def eq_match_def
      front_desk_doc_def pager_doc_def new_doc_def split: sum.splits)

section \<open>Helper lemmas\<close>

lemma find_None_iff_notin: "find P xs = None \<longleftrightarrow> (\<forall>x \<in> set xs. \<not> P x)"
  by (induction xs) auto

lemma find_first: "(\<forall>x \<in> set xs. \<not> P x) \<Longrightarrow> P d \<Longrightarrow> find P (xs @ d # ys) = Some d"
  by (induction xs) auto


lemma delete_first_split:
  "(\<forall>x \<in> set xs. \<not> P x) \<Longrightarrow> P d \<Longrightarrow> delete_first P (xs @ d # ys) = xs @ ys"
  by (induction xs) auto

lemma eq_match_string: "eq_match (JStr x) v = holds_string v x"
  by (cases v) (simp_all add: eq_match_def holds_string_def)

lemma eq_match_true: "eq_match (JBool True) v = holds_true v"
  by (cases v) (simp_all add: eq_match_def holds_true_def)



section \<open>The store adapter\<close>

text \<open>
  C8, as amended. Once the module is connected, \<open>getAllActive()\<close> returns, in the
  collection's order, exactly the documents whose \<open>active\<close> is \<open>true\<close> or an array with
  \<open>true\<close> among its elements: every document whose \<open>active\<close> is \<open>true\<close> is returned
  and none whose \<open>active\<close> is \<open>false\<close>.
\<close>

theorem getAllActive_exact:
  assumes "db s \<noteq> None"
  shows "\<exists>agents. Agents_getAllActive s = Inr agents \<and>
           agents = filter (\<lambda>d. holds_true (active d)) (docs (server s)) \<and>
           (\<forall>d \<in> set (docs (server s)). active d = JBool True \<longrightarrow> d \<in> set agents) \<and>
           (\<forall>d \<in> set agents. active d \<noteq> JBool False)"
  using assms
  by (auto simp: Agents_getAllActive_def getDB_def eq_match_true holds_true_def)

text \<open>
  C8 as stated fails: the document the \<open>create_agent\<close> tool stored with
  \<open>active: [true]\<close> is returned, and its \<open>active\<close> is not \<open>true\<close>.
\<close>

theorem getAllActive_array_counterexample:
  "Agents_getAllActive pager_store = Inr [front_desk_doc, pager_doc] \<and>
   active pager_doc = JArr [JBool True] \<and>
   active pager_doc \<noteq> JBool True"
  by (simp add: Agents_getAllActive_def getDB_def pager_store_eq connected_eq eq_match_def
      front_desk_doc_def pager_doc_def)

theorem getAllActive_exact_witness:
  "db two_agents \<noteq> None \<and> Agents_getAllActive two_agents = Inr [front_desk_doc] \<and>
   db pager_store \<noteq> None \<and> Agents_getAllActive pager_store = Inr [front_desk_doc, pager_doc]"
proof -
  have h: "db two_agents \<noteq> None" and h': "db pager_store \<noteq> None"
    by (simp_all add: two_agents_eq pager_store_eq connected_eq)
  from getAllActive_exact [OF h] obtain agents where
    "Agents_getAllActive two_agents = Inr agents"
    "agents = filter (\<lambda>d. holds_true (active d)) (docs (server two_agents))"
    by blast
  then have r: "Agents_getAllActive two_agents = Inr [front_desk_doc]"
    by (simp add: two_agents_eq connected_eq holds_true_def front_desk_doc_def night_line_doc_def)
  from getAllActive_exact [OF h'] obtain agents' where
    "Agents_getAllActive pager_store = Inr agents'"
    "agents' = filter (\<lambda>d. holds_true (active d)) (docs (server pager_store))"
    by blast
  then have r': "Agents_getAllActive pager_store = Inr [front_desk_doc, pager_doc]"
    by (simp add: pager_store_eq connected_eq holds_true_def front_desk_doc_def pager_doc_def)
  from h h' r r' show ?thesis by simp
qed






lemma delete_string:
  assumes "db s \<noteq> None"
  shows "Agents_delete (JStr i) s =
     (case find (\<lambda>d. holds_string (agentId d) i) (docs (server s)) of
        None \<Rightarrow> (Inr 0, s)
      | Some d \<Rightarrow>
          (Inr 1, s\<lparr>server := (server s)\<lparr>docs :=
             delete_first (\<lambda>d. holds_string (agentId d) i) (docs (server s))\<rparr>\<rparr>))"
  using assms
  by (auto simp: Agents_delete_def getDB_def deleteOne_def read_filter_string eq_match_string
      split: option.splits)

text \<open>
  C7, as amended. On a connected module, for a \<open>delete_agent\<close> call whose \<open>agentId\<close> is
  a string: when no document holds it, \<open>delete\<close> returns a count of 0 without throwing
  and changes nothing, and the tool answers \<open>success: false\<close> with the message
  \<open>Agent ... not found\<close>; when a document holds it, the first such document is removed,
  the count is 1 and the tool answers \<open>success: true\<close>.
\<close>

theorem delete_reports_removal:
  assumes "db s \<noteq> None" and "get_prop args ''agentId'' = JStr i"
  shows "((\<forall>d \<in> set (docs (server s)). \<not> holds_string (agentId d) i) \<longrightarrow>
            Agents_delete (JStr i) s = (Inr 0, s) \<and>
            delete_agent args s =
              (Text (JObj [(''success'', JBool False),
                           (''message'', JStr (''Agent '' @ i @ '' not found''))]),
               s)) \<and>
         (\<forall>xs d ys.
            docs (server s) = xs @ d # ys \<and> holds_string (agentId d) i \<and>
            (\<forall>x \<in> set xs. \<not> holds_string (agentId x) i) \<longrightarrow>
            Agents_delete (JStr i) s = (Inr 1, s\<lparr>server := (server s)\<lparr>docs := xs @ ys\<rparr>\<rparr>) \<and>
            delete_agent args s =
              (Text (JObj [(''success'', JBool True),
                           (''message'', JStr (''Agent '' @ i @ '' deleted''))]),
               s\<lparr>server := (server s)\<lparr>docs := xs @ ys\<rparr>\<rparr>))"
proof (intro conjI allI impI)
  assume "\<forall>d \<in> set (docs (server s)). \<not> holds_string (agentId d) i"
  then have "find (\<lambda>d. holds_string (agentId d) i) (docs (server s)) = None"
    by (simp add: find_None_iff_notin)
  then have d: "Agents_delete (JStr i) s = (Inr 0, s)"
    by (simp add: delete_string [OF assms(1)])
  then show "Agents_delete (JStr i) s = (Inr 0, s)" .
  from d assms(2) show "delete_agent args s =
              (Text (JObj [(''success'', JBool False),
                           (''message'', JStr (''Agent '' @ i @ '' not found''))]),
               s)"
    by (simp add: delete_agent_def stringify_def)
next
  fix xs d ys
  assume h: "docs (server s) = xs @ d # ys \<and> holds_string (agentId d) i \<and>
            (\<forall>x \<in> set xs. \<not> holds_string (agentId x) i)"
  let ?P = "\<lambda>d. holds_string (agentId d) i"
  have "find ?P (docs (server s)) = Some d" and "delete_first ?P (docs (server s)) = xs @ ys"
    using h by (simp_all add: find_first delete_first_split)
  then have d: "Agents_delete (JStr i) s = (Inr 1, s\<lparr>server := (server s)\<lparr>docs := xs @ ys\<rparr>\<rparr>)"
    by (simp add: delete_string [OF assms(1)])
  then show "Agents_delete (JStr i) s = (Inr 1, s\<lparr>server := (server s)\<lparr>docs := xs @ ys\<rparr>\<rparr>)" .
  from d assms(2) show "delete_agent args s =
              (Text (JObj [(''success'', JBool True),
                           (''message'', JStr (''Agent '' @ i @ '' deleted''))]),
               s\<lparr>server := (server s)\<lparr>docs := xs @ ys\<rparr>\<rparr>)"
    by (simp add: delete_agent_def stringify_def)
qed

text \<open>
  C7 as stated fails: for an \<open>agentId\<close> that no document holds and that has no string
  form, \<open>delete\<close> removes nothing and returns 0, and the tool then throws while it builds
  the not-found message: the caller gets the dispatcher's error text.
\<close>

theorem delete_agent_unprintable_counterexample:
  "Agents_delete unprintable one_agent = (Inr 0, one_agent) \<and>
   delete_agent [(''agentId'', unprintable)] one_agent =
     (Caught (TypeError ''Cannot convert object to primitive value''), one_agent)"
  by (simp add: delete_agent_def Agents_delete_def getDB_def deleteOne_def read_filter_def
      unprintable_def get_prop_def eq_match_def not_primitive_def one_agent_eq connected_eq
      front_desk_doc_def)

theorem delete_reports_removal_witness:
  "db one_agent \<noteq> None \<and>
   Agents_delete (JStr ''clinic-7'') one_agent = (Inr 0, one_agent) \<and>
   delete_agent [(''agentId'', JStr ''clinic-7'')] one_agent =
     (Text (JObj [(''success'', JBool False), (''message'', JStr ''Agent clinic-7 not found'')]),
      one_agent) \<and>
   Agents_delete (JStr ''clinic-1'') one_agent = (Inr 1, connected) \<and>
   delete_agent [(''agentId'', JStr ''clinic-1'')] one_agent =
     (Text (JObj [(''success'', JBool True), (''message'', JStr ''Agent clinic-1 deleted'')]),
      connected)"
proof -
  have c: "db one_agent \<noteq> None"
    by (simp add: one_agent_eq connected_eq)
  have g7: "get_prop [(''agentId'', JStr ''clinic-7'')] ''agentId'' = JStr ''clinic-7''"
    and g1: "get_prop [(''agentId'', JStr ''clinic-1'')] ''agentId'' = JStr ''clinic-1''"
    by (simp_all add: get_prop_def)
  have a: "\<forall>d \<in> set (docs (server one_agent)). \<not> holds_string (agentId d) ''clinic-7''"
    by (simp add: one_agent_eq connected_eq front_desk_doc_def holds_string_def)
  have p: "docs (server one_agent) = [] @ front_desk_doc # [] \<and>
           holds_string (agentId front_desk_doc) ''clinic-1'' \<and>
           (\<forall>x \<in> set []. \<not> holds_string (agentId x) ''clinic-1'')"
    by (simp add: one_agent_eq connected_eq front_desk_doc_def holds_string_def)
  have e: "one_agent\<lparr>server := (server one_agent)\<lparr>docs := [] @ []\<rparr>\<rparr> = connected"
    by (simp add: one_agent_eq connected_eq)
  from delete_reports_removal [OF c g7] a
  have r7: "Agents_delete (JStr ''clinic-7'') one_agent = (Inr 0, one_agent) \<and>
            delete_agent [(''agentId'', JStr ''clinic-7'')] one_agent =
              (Text (JObj [(''success'', JBool False), (''message'', JStr ''Agent clinic-7 not found'')]),
               one_agent)"
    by simp
  from delete_reports_removal [OF c g1] p
  have "Agents_delete (JStr ''clinic-1'') one_agent =
           (Inr 1, one_agent\<lparr>server := (server one_agent)\<lparr>docs := [] @ []\<rparr>\<rparr>) \<and>
        delete_agent [(''agentId'', JStr ''clinic-1'')] one_agent =
           (Text (JObj [(''success'', JBool True),
                        (''message'', JStr (''Agent '' @ ''clinic-1'' @ '' deleted''))]),
            one_agent\<lparr>server := (server one_agent)\<lparr>docs := [] @ []\<rparr>\<rparr>)"
    by blast
  then have r1: "Agents_delete (JStr ''clinic-1'') one_agent = (Inr 1, connected) \<and>
        delete_agent [(''agentId'', JStr ''clinic-1'')] one_agent =
           (Text (JObj [(''success'', JBool True), (''message'', JStr ''Agent clinic-1 deleted'')]),
            connected)"
    by (simp only: e) simp
  from c r7 r1 show ?thesis by simp
qed

section \<open>The connection\<close>

text \<open>
  What holds of \<open>connectDB\<close>, \<open>getDB\<close> and \<open>closeDB\<close>: a connected module returns its
  handle and changes nothing; a call that succeeds leaves \<open>db\<close> set; \<open>getDB\<close> throws
  exactly when \<open>db\<close> is unset; \<open>closeDB\<close> unsets it.
\<close>

lemma connectDB_idempotent: "db s = Some h \<Longrightarrow> connectDB l s = (Inr h, s)"
  by (simp add: connectDB_def)

lemma connectDB_success_sets_db:
  "connectDB l s = (Inr h, s') \<Longrightarrow> db s' = Some h"
  by (auto simp: connectDB_def Let_def split: option.splits link.splits prod.splits)

lemma getDB_throws_iff: "(\<exists>e. getDB s = Inl e) \<longleftrightarrow> db s = None"
  by (auto simp: getDB_def split: option.splits)

lemma closeDB_resets: "client s \<noteq> None \<Longrightarrow> db (closeDB s) = None \<and> client (closeDB s) = None"
  by (auto simp: closeDB_def)

text \<open>
  C10, at the input where the code departs from it. In front of a collection in which two
  documents share a phone number, \<open>connectDB\<close> fails while building the unique index, after
  \<open>db\<close> was assigned: \<open>getDB\<close>, which threw before the call, now returns the handle
  though no call has succeeded, and the next \<open>connectDB\<close> returns it at once and leaves
  the index unbuilt.
\<close>

theorem connectDB_failure_leaves_db_set:
  "getDB legacy = Inl (Error ''Database not initialized. Call connectDB() first.'') \<and>
   fst (connectDB Up legacy) = Inl (duplicate_key ''phoneNumber_1'') \<and>
   getDB (snd (connectDB Up legacy)) = Inr 0 \<and>
   connectDB Up (snd (connectDB Up legacy)) = (Inr 0, snd (connectDB Up legacy)) \<and>
   \<not> uniquePhoneNumber (server (snd (connectDB Up legacy)))"
  by (simp add: legacy_def initial_def connectDB_def create_indexes_def createIndex_def
      unique_keys_def front_desk_doc_def night_line_doc_def getDB_def)

section \<open>The prompt lookup\<close>














section \<open>The proxy routes\<close>














section \<open>Listing agents\<close>

lemma agents_route_view:
  assumes "db s \<noteq> None"
  shows "agents_route s =
           \<lparr>res_status = 200,
            res_body = JObj
              [(''success'', JBool True),
               (''count'',
                JNum (show_nat (length (map (\<lambda>d. (agentId d, agentName d, phoneNumber d))
                  (filter (\<lambda>d. holds_true (active d)) (docs (server s))))))),
               (''agents'',
                JArr (map (\<lambda>(i, n, p). JObj (filter (\<lambda>kv. snd kv \<noteq> JUndefined)
                             [(''agentId'', i), (''agentName'', n), (''phoneNumber'', p)]))
                        (map (\<lambda>d. (agentId d, agentName d, phoneNumber d))
                           (filter (\<lambda>d. holds_true (active d)) (docs (server s))))))]\<rparr>"
  using assms
  by (auto simp: agents_route_def Agents_getAllActive_def getDB_def eq_match_true
      agent_summary_def [abs_def] stringify_def comp_def)

text \<open>
  C9, as amended. \<open>GET /api/agents\<close> lists the records whose \<open>active\<close> is \<open>true\<close> or an
  array with \<open>true\<close> among its elements, and shows the \<open>agentId\<close>, \<open>agentName\<close> and
  \<open>phoneNumber\<close> of each. On connected modules, two stores that agree on these three
  fields of every such record, in order, get the same answer, which is built from the
  three fields alone: prompts, metadata, timestamps and the other records do not reach it.
\<close>

theorem agents_route_noninterference:
  assumes "db s1 \<noteq> None" and "db s2 \<noteq> None"
    and "map (\<lambda>d. (agentId d, agentName d, phoneNumber d))
           (filter (\<lambda>d. holds_true (active d)) (docs (server s1))) =
         map (\<lambda>d. (agentId d, agentName d, phoneNumber d))
           (filter (\<lambda>d. holds_true (active d)) (docs (server s2)))"
  shows "agents_route s1 = agents_route s2 \<and>
         agents_route s1 =
           \<lparr>res_status = 200,
            res_body = JObj
              [(''success'', JBool True),
               (''count'',
                JNum (show_nat (length (filter (\<lambda>d. holds_true (active d))
                                          (docs (server s1)))))),
               (''agents'',
                JArr (map (\<lambda>d. JObj (filter (\<lambda>kv. snd kv \<noteq> JUndefined)
                             [(''agentId'', agentId d), (''agentName'', agentName d),
                              (''phoneNumber'', phoneNumber d)]))
                        (filter (\<lambda>d. holds_true (active d)) (docs (server s1)))))]\<rparr>"
proof -
  have "agents_route s1 = agents_route s2"
    by (simp only: agents_route_view [OF assms(1)] agents_route_view [OF assms(2)] assms(3))
  moreover have "agents_route s1 =
           \<lparr>res_status = 200,
            res_body = JObj
              [(''success'', JBool True),
               (''count'',
                JNum (show_nat (length (filter (\<lambda>d. holds_true (active d))
                                          (docs (server s1)))))),
               (''agents'',
                JArr (map (\<lambda>d. JObj (filter (\<lambda>kv. snd kv \<noteq> JUndefined)
                             [(''agentId'', agentId d), (''agentName'', agentName d),
                              (''phoneNumber'', phoneNumber d)]))
                        (filter (\<lambda>d. holds_true (active d)) (docs (server s1)))))]\<rparr>"
    by (simp add: agents_route_view [OF assms(1)] comp_def)
  ultimately show ?thesis by (rule conjI)
qed

lemma reworded_store_eq:
  "reworded_store =
     connected\<lparr>server := (server connected)\<lparr>docs :=
       [front_desk_doc\<lparr>agentPrompt := JStr ''Greet the caller first.'',
                       metadata := JObj [(''tier'', JStr ''gold'')], updatedAt := Some 3000\<rparr>,
        night_line_doc]\<rparr>\<rparr>"
  by (simp add: reworded_store_def two_agents_eq connected_eq Agents_upsert_def getDB_def
      updateOne_upsert_def phone_conflict_def read_filter_string key_conflict_def eq_match_def
      front_desk_doc_def night_line_doc_def reworded_def front_desk_def set_fields_def)

theorem agents_route_array_counterexample:
  "docs (server one_agent) = [front_desk_doc] \<and>
   docs (server pager_store) = [front_desk_doc, pager_doc] \<and>
   active front_desk_doc = JBool True \<and>
   active pager_doc = JArr [JBool True] \<and>
   agents_route one_agent =
     \<lparr>res_status = 200,
      res_body = JObj
        [(''success'', JBool True),
         (''count'', JNum ''1''),
         (''agents'',
          JArr [JObj [(''agentId'', JStr ''clinic-1''), (''agentName'', JStr ''Front Desk''),
                      (''phoneNumber'', JStr ''+12025551234'')]])]\<rparr> \<and>
   agents_route pager_store =
     \<lparr>res_status = 200,
      res_body = JObj
        [(''success'', JBool True),
         (''count'', JNum ''2''),
         (''agents'',
          JArr [JObj [(''agentId'', JStr ''clinic-1''), (''agentName'', JStr ''Front Desk''),
                      (''phoneNumber'', JStr ''+12025551234'')],
                JObj [(''agentId'', JStr ''clinic-4''), (''agentName'', JStr ''Pager''),
                      (''phoneNumber'', JStr ''+12025554444'')]])]\<rparr>"
  by (simp add: one_agent_eq pager_store_eq connected_eq front_desk_doc_def pager_doc_def
      agents_route_def Agents_getAllActive_def getDB_def eq_match_def agent_summary_def
      stringify_def show_nat.simps)

theorem agents_route_noninterference_witness:
  "db one_agent \<noteq> None \<and> db reworded_store \<noteq> None \<and> db pager_store \<noteq> None \<and>
   docs (server one_agent) \<noteq> docs (server reworded_store) \<and>
   agents_route one_agent = agents_route reworded_store \<and>
   agents_route reworded_store =
     \<lparr>res_status = 200,
      res_body = JObj
        [(''success'', JBool True),
         (''count'', JNum ''1''),
         (''agents'',
          JArr [JObj [(''agentId'', JStr ''clinic-1''), (''agentName'', JStr ''Front Desk''),
                      (''phoneNumber'', JStr ''+12025551234'')]])]\<rparr> \<and>
   agents_route pager_store =
     \<lparr>res_status = 200,
      res_body = JObj
        [(''success'', JBool True),
         (''count'', JNum ''2''),
         (''agents'',
          JArr [JObj [(''agentId'', JStr ''clinic-1''), (''agentName'', JStr ''Front Desk''),
                      (''phoneNumber'', JStr ''+12025551234'')],
                JObj [(''agentId'', JStr ''clinic-4''), (''agentName'', JStr ''Pager''),
                      (''phoneNumber'', JStr ''+12025554444'')]])]\<rparr>"
proof -
  have c1: "db one_agent \<noteq> None" and c2: "db reworded_store \<noteq> None"
    and c3: "db pager_store \<noteq> None"
    by (simp_all add: one_agent_eq reworded_store_eq pager_store_eq connected_eq)
  have v: "map (\<lambda>d. (agentId d, agentName d, phoneNumber d))
             (filter (\<lambda>d. holds_true (active d)) (docs (server one_agent))) =
           map (\<lambda>d. (agentId d, agentName d, phoneNumber d))
             (filter (\<lambda>d. holds_true (active d)) (docs (server reworded_store)))"
    by (simp add: one_agent_eq reworded_store_eq connected_eq front_desk_doc_def
        night_line_doc_def holds_true_def)
  have d: "docs (server one_agent) \<noteq> docs (server reworded_store)"
    by (simp add: one_agent_eq reworded_store_eq connected_eq)
  note t = agents_route_noninterference [OF c1 c2 v]
  note u = agents_route_noninterference [OF c3 c3 refl]
  have e1: "agents_route one_agent = agents_route reworded_store"
    using t by (rule conjunct1)
  have e2: "agents_route one_agent =
     \<lparr>res_status = 200,
      res_body = JObj
        [(''success'', JBool True),
         (''count'', JNum ''1''),
         (''agents'',
          JArr [JObj [(''agentId'', JStr ''clinic-1''), (''agentName'', JStr ''Front Desk''),
                      (''phoneNumber'', JStr ''+12025551234'')]])]\<rparr>"
    using conjunct2 [OF t]
    by (simp add: one_agent_eq connected_eq front_desk_doc_def holds_true_def show_nat.simps)
  note e3 = trans [OF e1 [symmetric] e2]
  have e4: "agents_route pager_store =
     \<lparr>res_status = 200,
      res_body = JObj
        [(''success'', JBool True),
         (''count'', JNum ''2''),
         (''agents'',
          JArr [JObj [(''agentId'', JStr ''clinic-1''), (''agentName'', JStr ''Front Desk''),
                      (''phoneNumber'', JStr ''+12025551234'')],
                JObj [(''agentId'', JStr ''clinic-4''), (''agentName'', JStr ''Pager''),
                      (''phoneNumber'', JStr ''+12025554444'')]])]\<rparr>"
    using conjunct2 [OF u]
    by (simp add: pager_store_eq connected_eq front_desk_doc_def pager_doc_def holds_true_def
        show_nat.simps)
  from c1 c2 c3 d e1 e3 e4 show ?thesis by (intro conjI)
qed

section \<open>Creating agents\<close>

lemma create_agent_route_validates:
  assumes "\<not> truthy (get_prop body ''agentId'') \<or> \<not> truthy (get_prop body ''agentName'') \<or>
           \<not> truthy (get_prop body ''phoneNumber'') \<or> \<not> truthy (get_prop body ''agentPrompt'')"
  shows "create_agent_route body tu tc s =
           (failure 400 ''agentId, agentName, phoneNumber, and agentPrompt are required'', s)"
  using assms by (auto simp: create_agent_route_def)

text \<open>
  C2, at the input where the code departs from it. The \<open>create_agent\<close> tool called
  without \<open>agentPrompt\<close> on an empty connected store answers \<open>success: true\<close> and leaves
  a document whose prompt is \<open>null\<close>. The HTTP route refuses the same body with a 400 and
  leaves the store as it was (\<open>create_agent_route_validates\<close> above, and
  \<open>create_agent_route_without_prompt\<close> below).
\<close>

theorem create_agent_tool_without_prompt:
  "get_prop [(''agentId'', JStr ''clinic-3''), (''agentName'', JStr ''Lab''),
             (''phoneNumber'', JStr ''+12025557777'')] ''agentPrompt'' = JUndefined \<and>
   create_agent [(''agentId'', JStr ''clinic-3''), (''agentName'', JStr ''Lab''),
                 (''phoneNumber'', JStr ''+12025557777'')] 2000 2001 connected =
     (Text (JObj [(''success'', JBool True),
                  (''message'', JStr ''Agent clinic-3 created successfully''),
                  (''agentId'', JStr ''clinic-3''),
                  (''phoneNumber'', JStr ''+12025557777'')]),
      connected\<lparr>server := (server connected)\<lparr>docs :=
        [\<lparr>agentId = JStr ''clinic-3'', agentName = JStr ''Lab'',
          phoneNumber = JStr ''+12025557777'', agentPrompt = JNull, active = JBool True,
          metadata = JObj [], createdAt = Some 2001, updatedAt = Some 2000\<rparr>]\<rparr>\<rparr>)"
  by (simp add: create_agent_def upsert_argument_def get_prop_def
      Agents_upsert_def getDB_def updateOne_upsert_def phone_conflict_def read_filter_string
      key_conflict_def connected_eq new_doc_def stringify_def)

lemma create_agent_route_without_prompt:
  "create_agent_route [(''agentId'', JStr ''clinic-3''), (''agentName'', JStr ''Lab''),
                       (''phoneNumber'', JStr ''+12025557777'')] 2000 2001 connected =
     (failure 400 ''agentId, agentName, phoneNumber, and agentPrompt are required'', connected)"
  by (rule create_agent_route_validates) (simp add: get_prop_def)

section \<open>Finding a patient's appointments\<close>

lemma field_member: "member v k = Some x \<Longrightarrow> field v k = x"
  by (simp add: field_def)

lemma filter_included_kept:
  "filter_included apts = Inr kept \<Longrightarrow>
   kept = filter (\<lambda>a. field a ''status'' = JStr ''scheduled'' \<or>
                       field a ''status'' = JStr ''confirmed'') apts"
proof (induction apts arbitrary: kept)
  case Nil
  then show ?case by simp
next
  case (Cons apt rest)
  then show ?case
    by (auto simp: field_member split: option.splits sum.splits if_splits)
qed

lemma filter_included_total:
  "\<forall>a \<in> set apts. a \<noteq> JNull \<and> a \<noteq> JUndefined \<Longrightarrow>
   filter_included apts =
     Inr (filter (\<lambda>a. field a ''status'' = JStr ''scheduled'' \<or>
                      field a ''status'' = JStr ''confirmed'') apts)"
proof (induction apts)
  case Nil
  then show ?case by simp
next
  case (Cons apt rest)
  then have "member apt ''status'' \<noteq> None"
    by (cases apt) simp_all
  with Cons show ?case
    by (auto simp: field_member)
qed

lemma summaries_map: "summaries apts = Inr out \<Longrightarrow> out = map appointment_summary apts"
  by (induction apts arbitrary: out) (auto split: option.splits sum.splits)

lemma summaries_total:
  "\<forall>a \<in> set apts. a \<noteq> JNull \<and> a \<noteq> JUndefined \<Longrightarrow>
   summaries apts = Inr (map appointment_summary apts)"
proof (induction apts)
  case Nil
  then show ?case by simp
next
  case (Cons apt rest)
  then have "member apt ''_id'' \<noteq> None"
    by (cases apt) simp_all
  with Cons show ?case by auto
qed

lemma summary_status:
  "field (appointment_summary a) ''status'' = field a ''status''"
  by (simp add: appointment_summary_def stringify_def field_def get_prop_def)

lemma payload_fields:
  "field (stringify [(''success'', JBool True), (''patientPhone'', ph), (''count'', JNum n),
                     (''appointments'', JArr out)]) ''appointments'' = JArr out"
  "field (stringify [(''success'', JBool True), (''patientPhone'', ph), (''count'', JNum n),
                     (''appointments'', JArr out)]) ''count'' = JNum n"
  by (simp_all add: stringify_def field_def get_prop_def)

lemma appointments_payload_included:
  assumes "\<not> truthy inc" and "appointments_payload ph inc data = Inr payload"
  shows "\<exists>kept. payload = stringify
                   [(''success'', JBool True), (''patientPhone'', ph),
                    (''count'', JNum (show_nat (length kept))),
                    (''appointments'', JArr (map appointment_summary kept))] \<and>
                (\<forall>a \<in> set kept. field a ''status'' = JStr ''scheduled'' \<or>
                                 field a ''status'' = JStr ''confirmed'')"
proof -
  from assms obtain a where a: "member data ''appointments'' = Some a"
    by (auto simp: appointments_payload_def split: option.splits)
  from assms a obtain apts where apts: "(if truthy a then a else JArr []) = JArr apts"
    by (cases "if truthy a then a else JArr []") (auto simp: appointments_payload_def)
  from assms a apts obtain kept where k: "filter_included apts = Inr kept"
    by (cases "filter_included apts") (auto simp: appointments_payload_def)
  from assms a apts k obtain out where o: "summaries kept = Inr out"
    by (cases "summaries kept") (auto simp: appointments_payload_def)
  from assms a apts k o have "payload = stringify
                   [(''success'', JBool True), (''patientPhone'', ph),
                    (''count'', JNum (show_nat (length kept))),
                    (''appointments'', JArr out)]"
    by (auto simp: appointments_payload_def)
  moreover have "out = map appointment_summary kept"
    using o by (rule summaries_map)
  moreover have "\<forall>a \<in> set kept. field a ''status'' = JStr ''scheduled'' \<or>
                                 field a ''status'' = JStr ''confirmed''"
    using filter_included_kept [OF k] by simp
  ultimately show ?thesis by blast
qed

lemma appointments_payload_total:
  assumes "\<not> truthy inc" and "member data ''appointments'' = Some (JArr apts)"
    and "\<forall>a \<in> set apts. a \<noteq> JNull \<and> a \<noteq> JUndefined"
  shows "appointments_payload ph inc data =
           Inr (stringify
                  [(''success'', JBool True), (''patientPhone'', ph),
                   (''count'',
                    JNum (show_nat (length
                      (filter (\<lambda>a. field a ''status'' = JStr ''scheduled'' \<or>
                                   field a ''status'' = JStr ''confirmed'') apts)))),
                   (''appointments'',
                    JArr (map appointment_summary
                            (filter (\<lambda>a. field a ''status'' = JStr ''scheduled'' \<or>
                                         field a ''status'' = JStr ''confirmed'') apts)))])"
proof -
  let ?kept = "filter (\<lambda>a. field a ''status'' = JStr ''scheduled'' \<or>
                           field a ''status'' = JStr ''confirmed'') apts"
  have k: "filter_included apts = Inr ?kept"
    using assms(3) by (rule filter_included_total)
  have "\<forall>a \<in> set ?kept. a \<noteq> JNull \<and> a \<noteq> JUndefined"
    using assms(3) by simp
  then have o: "summaries ?kept = Inr (map appointment_summary ?kept)"
    by (rule summaries_total)
  from assms(1,2) k o show ?thesis
    by (simp add: appointments_payload_def)
qed

lemma appointments_failed_list:
  "appointments_failed e = Text payload \<Longrightarrow> field payload ''appointments'' = JUndefined"
  by (auto simp: appointments_failed_def stringify_def field_def get_prop_def)

text \<open>
  C5. A \<open>find_patient_appointments\<close> call whose \<open>patientPhone\<close> is a string sends one
  upstream request, the appointments query with the phone number's ASCII digits and nothing
  else; no other call sends any. When \<open>includeCompleted\<close> is omitted or otherwise falsy,
  every appointment of an answer that lists appointments has status \<open>scheduled\<close> or
  \<open>confirmed\<close>, and \<open>count\<close> is their number. When moreover upstream answers with a
  JSON body whose \<open>appointments\<close> is an array without \<open>null\<close>, the answer lists exactly
  the summaries of the upstream appointments with one of these two statuses.
\<close>

theorem find_patient_appointments_filters:
  "snd (find_patient_appointments net args) =
     (case get_prop args ''patientPhone'' of
        JStr p \<Rightarrow>
          [\<lparr>up_method = GET, up_path = [''api'', ''appointments''],
            up_query = [(''phone'', filter (\<lambda>c. c \<in> set ''0123456789'') p)],
            up_body = None\<rparr>]
      | _ \<Rightarrow> []) \<and>
   (\<forall>payload out.
      \<not> truthy (get_prop args ''includeCompleted'') \<and>
      fst (find_patient_appointments net args) = Text payload \<and>
      field payload ''appointments'' = JArr out \<longrightarrow>
      field payload ''count'' = JNum (show_nat (length out)) \<and>
      (\<forall>a \<in> set out. field a ''status'' = JStr ''scheduled'' \<or>
                      field a ''status'' = JStr ''confirmed'')) \<and>
   (\<forall>p st data apts.
      get_prop args ''patientPhone'' = JStr p \<and>
      \<not> truthy (get_prop args ''includeCompleted'') \<and>
      net \<lparr>up_method = GET, up_path = [''api'', ''appointments''],
           up_query = [(''phone'', filter (\<lambda>c. c \<in> set ''0123456789'') p)],
           up_body = None\<rparr> = Response st (Inr data) \<and>
      member data ''appointments'' = Some (JArr apts) \<and>
      (\<forall>a \<in> set apts. a \<noteq> JNull \<and> a \<noteq> JUndefined) \<longrightarrow>
      fst (find_patient_appointments net args) =
        Text (JObj
          [(''success'', JBool True), (''patientPhone'', JStr p),
           (''count'',
            JNum (show_nat (length
              (filter (\<lambda>a. field a ''status'' = JStr ''scheduled'' \<or>
                           field a ''status'' = JStr ''confirmed'') apts)))),
           (''appointments'',
            JArr (map (\<lambda>a. JObj (filter (\<lambda>kv. snd kv \<noteq> JUndefined)
                         [(''id'', field a ''_id''),
                          (''date'', field a ''date''),
                          (''time'', field a ''time''),
                          (''doctorName'', field (field a ''metadata'') ''doctor_name''),
                          (''status'', field a ''status''),
                          (''purpose'', field a ''purpose'')]))
                    (filter (\<lambda>a. field a ''status'' = JStr ''scheduled'' \<or>
                                 field a ''status'' = JStr ''confirmed'') apts)))]))"
proof (intro conjI allI impI)
  show "snd (find_patient_appointments net args) =
     (case get_prop args ''patientPhone'' of
        JStr p \<Rightarrow>
          [\<lparr>up_method = GET, up_path = [''api'', ''appointments''],
            up_query = [(''phone'', filter (\<lambda>c. c \<in> set ''0123456789'') p)],
            up_body = None\<rparr>]
      | _ \<Rightarrow> [])"
    by (cases "get_prop args ''patientPhone''")
      (simp_all add: find_patient_appointments_def Let_def strip_non_digits_def
        split: sum.splits prod.splits)
next
  fix payload out
  assume h: "\<not> truthy (get_prop args ''includeCompleted'') \<and>
      fst (find_patient_appointments net args) = Text payload \<and>
      field payload ''appointments'' = JArr out"
  let ?ph = "get_prop args ''patientPhone''"
  let ?inc = "get_prop args ''includeCompleted''"
  have nf: "appointments_failed e \<noteq> Text payload" for e
    using h appointments_failed_list [of e payload] by auto
  from h nf obtain cleanPhone where cp: "clean_phone ?ph = Inr cleanPhone"
    by (cases "clean_phone ?ph") (auto simp: find_patient_appointments_def)
  let ?rq = "\<lparr>up_method = GET, up_path = [''api'', ''appointments''],
              up_query = [(''phone'', cleanPhone)], up_body = None\<rparr>"
  from h nf cp obtain st data where rj: "read_json (net ?rq) = Inr (st, data)"
    by (cases "read_json (net ?rq)") (auto simp: find_patient_appointments_def Let_def)
  from h nf cp rj have ap: "appointments_payload ?ph ?inc data = Inr payload"
    by (cases "appointments_payload ?ph ?inc data")
      (auto simp: find_patient_appointments_def Let_def)
  from h have "\<not> truthy ?inc" by simp
  from appointments_payload_included [OF this ap] obtain kept where
    p: "payload = stringify
                   [(''success'', JBool True), (''patientPhone'', ?ph),
                    (''count'', JNum (show_nat (length kept))),
                    (''appointments'', JArr (map appointment_summary kept))]"
    and u: "\<forall>a \<in> set kept. field a ''status'' = JStr ''scheduled'' \<or>
                            field a ''status'' = JStr ''confirmed''"
    by blast
  from p h have o: "out = map appointment_summary kept"
    by (simp add: payload_fields)
  from p o show "field payload ''count'' = JNum (show_nat (length out))"
    by (simp add: payload_fields)
  from u o show "\<forall>a \<in> set out. field a ''status'' = JStr ''scheduled'' \<or>
                               field a ''status'' = JStr ''confirmed''"
    by (simp add: summary_status)
next
  fix p st data apts
  assume h: "get_prop args ''patientPhone'' = JStr p \<and>
      \<not> truthy (get_prop args ''includeCompleted'') \<and>
      net \<lparr>up_method = GET, up_path = [''api'', ''appointments''],
           up_query = [(''phone'', filter (\<lambda>c. c \<in> set ''0123456789'') p)],
           up_body = None\<rparr> = Response st (Inr data) \<and>
      member data ''appointments'' = Some (JArr apts) \<and>
      (\<forall>a \<in> set apts. a \<noteq> JNull \<and> a \<noteq> JUndefined)"
  then have "appointments_payload (JStr p) (get_prop args ''includeCompleted'') data =
           Inr (stringify
                  [(''success'', JBool True), (''patientPhone'', JStr p),
                   (''count'',
                    JNum (show_nat (length
                      (filter (\<lambda>a. field a ''status'' = JStr ''scheduled'' \<or>
                                   field a ''status'' = JStr ''confirmed'') apts)))),
                   (''appointments'',
                    JArr (map appointment_summary
                            (filter (\<lambda>a. field a ''status'' = JStr ''scheduled'' \<or>
                                         field a ''status'' = JStr ''confirmed'') apts)))])"
    using appointments_payload_total by blast
  with h show "fst (find_patient_appointments net args) =
        Text (JObj
          [(''success'', JBool True), (''patientPhone'', JStr p),
           (''count'',
            JNum (show_nat (length
              (filter (\<lambda>a. field a ''status'' = JStr ''scheduled'' \<or>
                           field a ''status'' = JStr ''confirmed'') apts)))),
           (''appointments'',
            JArr (map (\<lambda>a. JObj (filter (\<lambda>kv. snd kv \<noteq> JUndefined)
                         [(''id'', field a ''_id''),
                          (''date'', field a ''date''),
                          (''time'', field a ''time''),
                          (''doctorName'', field (field a ''metadata'') ''doctor_name''),
                          (''status'', field a ''status''),
                          (''purpose'', field a ''purpose'')]))
                    (filter (\<lambda>a. field a ''status'' = JStr ''scheduled'' \<or>
                                 field a ''status'' = JStr ''confirmed'') apts)))])"
    by (simp add: find_patient_appointments_def Let_def strip_non_digits_def stringify_def
        appointment_summary_def [abs_def])
qed

theorem find_patient_appointments_filters_witness:
  "\<not> truthy (get_prop [(''patientPhone'', JStr ''(202) 555-1234'')] ''includeCompleted'') \<and>
   find_patient_appointments calendar [(''patientPhone'', JStr ''(202) 555-1234'')] =
     (Text (JObj
        [(''success'', JBool True),
         (''patientPhone'', JStr ''(202) 555-1234''),
         (''count'', JNum ''2''),
         (''appointments'',
          JArr [JObj [(''id'', JStr ''a1''), (''date'', JStr ''2025-01-15''),
                      (''time'', JStr ''14:00''), (''doctorName'', JStr ''Dr. Smith''),
                      (''status'', JStr ''scheduled''), (''purpose'', JStr ''Checkup'')],
                JObj [(''id'', JStr ''a3''), (''date'', JStr ''2025-02-03''),
                      (''time'', JStr ''10:30''), (''status'', JStr ''confirmed''),
                      (''purpose'', JStr ''X-ray'')]])]),
      [\<lparr>up_method = GET, up_path = [''api'', ''appointments''],
        up_query = [(''phone'', ''2025551234'')], up_body = None\<rparr>]) \<and>
   snd (find_patient_appointments unreachable
          [(''patientPhone'', JStr ''+1 303-555-0000''), (''includeCompleted'', JBool False)]) =
     [\<lparr>up_method = GET, up_path = [''api'', ''appointments''],
       up_query = [(''phone'', ''13035550000'')], up_body = None\<rparr>] \<and>
   snd (find_patient_appointments calendar [(''patientPhone'', JNum ''2025551234'')]) = []"
proof -
  let ?args = "[(''patientPhone'', JStr ''(202) 555-1234'')]"
  let ?apts =
    "[JObj [(''_id'', JStr ''a1''), (''date'', JStr ''2025-01-15''),
            (''time'', JStr ''14:00''), (''status'', JStr ''scheduled''),
            (''purpose'', JStr ''Checkup''),
            (''metadata'', JObj [(''doctor_name'', JStr ''Dr. Smith'')])],
      JObj [(''_id'', JStr ''a2''), (''date'', JStr ''2024-12-01''),
            (''time'', JStr ''09:00''), (''status'', JStr ''completed''),
            (''purpose'', JStr ''Follow-up'')],
      JObj [(''_id'', JStr ''a3''), (''date'', JStr ''2025-02-03''),
            (''time'', JStr ''10:30''), (''status'', JStr ''confirmed''),
            (''purpose'', JStr ''X-ray'')]]"
  let ?data = "JObj [(''appointments'', JArr ?apts)]"
  have ph: "get_prop ?args ''patientPhone'' = JStr ''(202) 555-1234''"
    and inc: "\<not> truthy (get_prop ?args ''includeCompleted'')"
    by (simp_all add: get_prop_def)
  have net: "calendar rq = Response 200 (Inr ?data)" for rq
    by (simp add: calendar_def)
  have m: "member ?data ''appointments'' = Some (JArr ?apts)"
    by (simp add: get_prop_def)
  have ok: "\<forall>a \<in> set ?apts. a \<noteq> JNull \<and> a \<noteq> JUndefined"
    by simp
  note t = find_patient_appointments_filters [of calendar ?args]
  note u = find_patient_appointments_filters [of unreachable
      "[(''patientPhone'', JStr ''+1 303-555-0000''), (''includeCompleted'', JBool False)]",
      THEN conjunct1]
  note w = find_patient_appointments_filters [of calendar
      "[(''patientPhone'', JNum ''2025551234'')]", THEN conjunct1]
  from t ph have sent: "snd (find_patient_appointments calendar ?args) =
      [\<lparr>up_method = GET, up_path = [''api'', ''appointments''],
        up_query = [(''phone'', ''2025551234'')], up_body = None\<rparr>]"
    by simp
  from t ph inc net m ok
  have "fst (find_patient_appointments calendar ?args) =
        Text (JObj
          [(''success'', JBool True), (''patientPhone'', JStr ''(202) 555-1234''),
           (''count'',
            JNum (show_nat (length
              (filter (\<lambda>a. field a ''status'' = JStr ''scheduled'' \<or>
                           field a ''status'' = JStr ''confirmed'') ?apts)))),
           (''appointments'',
            JArr (map (\<lambda>a. JObj (filter (\<lambda>kv. snd kv \<noteq> JUndefined)
                         [(''id'', field a ''_id''),
                          (''date'', field a ''date''),
                          (''time'', field a ''time''),
                          (''doctorName'', field (field a ''metadata'') ''doctor_name''),
                          (''status'', field a ''status''),
                          (''purpose'', field a ''purpose'')]))
                    (filter (\<lambda>a. field a ''status'' = JStr ''scheduled'' \<or>
                                 field a ''status'' = JStr ''confirmed'') ?apts)))])"
    by blast
  then have res: "fst (find_patient_appointments calendar ?args) =
     Text (JObj
        [(''success'', JBool True),
         (''patientPhone'', JStr ''(202) 555-1234''),
         (''count'', JNum ''2''),
         (''appointments'',
          JArr [JObj [(''id'', JStr ''a1''), (''date'', JStr ''2025-01-15''),
                      (''time'', JStr ''14:00''), (''doctorName'', JStr ''Dr. Smith''),
                      (''status'', JStr ''scheduled''), (''purpose'', JStr ''Checkup'')],
                JObj [(''id'', JStr ''a3''), (''date'', JStr ''2025-02-03''),
                      (''time'', JStr ''10:30''), (''status'', JStr ''confirmed''),
                      (''purpose'', JStr ''X-ray'')]])])"
    by (simp add: field_def get_prop_def show_nat.simps)
  from u have sent2: "snd (find_patient_appointments unreachable
          [(''patientPhone'', JStr ''+1 303-555-0000''), (''includeCompleted'', JBool False)]) =
     [\<lparr>up_method = GET, up_path = [''api'', ''appointments''],
       up_query = [(''phone'', ''13035550000'')], up_body = None\<rparr>]"
    by (simp add: get_prop_def)
  from w have sent3:
    "snd (find_patient_appointments calendar [(''patientPhone'', JNum ''2025551234'')]) = []"
    by (simp add: get_prop_def)
  from res sent inc sent2 sent3 show ?thesis
    by (simp add: prod_eq_iff)
qed

section \<open>Looking an agent up by phone\<close>





end
